theory Spec2Isabelle
  imports Main "HOL-Library.Sublist" "HOL-Library.Word"
begin

unbundle bit_operations_syntax

section \<open>Data model\<close>

text \<open>
  The service is one Python function, \<^verbatim>\<open>RequestHandler.do_POST\<close> in \<^verbatim>\<open>server.py\<close>.
  Its inputs are the request (path, headers, body stream) and the configured token; its
  effects are the HTTP response and the operations on the file system and on the
  conversion tool. The model returns the outcome of the handler together with the list
  of effects in the order the handler performs them.
\<close>

type_synonym byte = "8 word"
type_synonym bytes = "byte list"

text \<open>
  A value returned by \<^verbatim>\<open>json.loads\<close>. An object is a Python \<^verbatim>\<open>dict\<close>: an association
  list in insertion order whose keys are distinct. The handler never reads the value of
  a number, only its type.
\<close>

datatype json =
    JNull
  | JBool bool
  | JNum int
  | JStr string
  | JArr "json list"
  | JObj "(string \<times> json) list"

text \<open>
  A path is the list of its components below the root. Before \<^verbatim>\<open>resolve()\<close> a path may
  hold \<^verbatim>\<open>..\<close> components.
\<close>

type_synonym path = "string list"

datatype exn =
    TypeError
  | AttributeError
  | ValueError
  | BinasciiError
  | OSError
  | URLError
  | OverflowError

record response =
  resp_status :: nat
  resp_headers :: "(string \<times> string) list"
  resp_body :: bytes

text \<open>
  The handler either writes a response, or an exception leaves \<^verbatim>\<open>do_POST\<close> and no
  response is written. A response holds the status, the headers the handler sends itself
  (\<^verbatim>\<open>send_response\<close> adds \<^verbatim>\<open>Server\<close> and \<^verbatim>\<open>Date\<close> to every response; they are left
  out) and the body.
\<close>

datatype outcome = Response response | Uncaught exn

datatype event =
    Mkdtemp path
  | Mkdir path
  | Open path
  | Write path bytes
  | Urlopen string
  | Spawn "string list" path
  | Rmtree path

datatype parse_fault = JSONDecodeError | OtherFault

record request =
  req_path :: string
  req_headers :: "string \<rightharpoonup> string"
  req_rfile :: bytes

text \<open>
  What the handler calls and the repository does not define: \<^verbatim>\<open>int\<close> on a header
  value, \<^verbatim>\<open>json.loads\<close>, the directory that \<^verbatim>\<open>TemporaryDirectory()\<close> creates,
  \<^verbatim>\<open>Path.resolve\<close>, \<^verbatim>\<open>Path.open("wb")\<close> (\<open>None\<close> when the file is opened), \<^verbatim>\<open>urlopen\<close>
  (the body that \<^verbatim>\<open>read()\<close> would return) and the run of the tool by \<^verbatim>\<open>Popen\<close> and
  \<^verbatim>\<open>communicate()\<close>: from the argument list, the working directory and the files written
  so far to the return code, the captured standard output and the captured standard
  error. \<^verbatim>\<open>resolve\<close> depends on the symbolic links of the host, so the handler is
  modelled for any such function; a result \<open>Inl\<close> is the exception the call raises.
  The lookup in the headers ignores the case of the name; the map of a request is that
  lookup.
\<close>

record env =
  py_int :: "string \<Rightarrow> int option"
  loads :: "bytes \<Rightarrow> parse_fault + json"
  tmpdir :: path
  resolve :: "path \<Rightarrow> exn + path"
  open_wb :: "path \<Rightarrow> exn option"
  urlopen :: "string \<Rightarrow> exn + bytes"
  popen :: "string list \<Rightarrow> path \<Rightarrow> (path \<times> bytes) list \<Rightarrow> exn + (int \<times> bytes \<times> bytes)"

record job =
  files :: "(string \<times> json) list"
  extra_files :: "(string \<times> json) list"
  args :: "json list"

section \<open>Library operations the handler relies on\<close>

subsection \<open>Strings and dictionaries\<close>

definition startswith :: "string \<Rightarrow> string \<Rightarrow> bool" where
  "startswith s p = prefix p s"

text \<open>Python's \<^verbatim>\<open>needle in haystack\<close> on two strings.\<close>

fun str_contains :: "string \<Rightarrow> string \<Rightarrow> bool" where
  "str_contains needle [] = (needle = [])"
| "str_contains needle (c # cs) = (prefix needle (c # cs) \<or> str_contains needle cs)"

text \<open>\<^verbatim>\<open>d[k] = v\<close>: an existing key keeps its position, a new key goes last.\<close>

fun dict_set :: "string \<Rightarrow> 'v \<Rightarrow> (string \<times> 'v) list \<Rightarrow> (string \<times> 'v) list" where
  "dict_set k v [] = [(k, v)]"
| "dict_set k v ((k', v') # d) =
     (if k' = k then (k', v) # d else (k', v') # dict_set k v d)"

text \<open>\<^verbatim>\<open>{ **files, **extra_files }\<close>\<close>

definition dict_merge :: "(string \<times> 'v) list \<Rightarrow> (string \<times> 'v) list \<Rightarrow> (string \<times> 'v) list" where
  "dict_merge d e = fold (\<lambda>(k, v). dict_set k v) e d"

definition dict_keys :: "(string \<times> 'v) list \<Rightarrow> string list" where
  "dict_keys d = map fst d"

text \<open>\<^verbatim>\<open>d.pop(k)\<close> on a dictionary that holds \<open>k\<close>, and \<^verbatim>\<open>d.pop(k, default)\<close>.\<close>

definition dict_pop :: "string \<Rightarrow> 'v \<Rightarrow> (string \<times> 'v) list \<Rightarrow> 'v \<times> (string \<times> 'v) list" where
  "dict_pop k dflt d =
     (case map_of d k of
        None \<Rightarrow> (dflt, d)
      | Some v \<Rightarrow> (v, filter (\<lambda>(k', _). k' \<noteq> k) d))"

text \<open>\<^verbatim>\<open>str(n)\<close> for a length.\<close>

fun str_nat :: "nat \<Rightarrow> string" where
  "str_nat n =
     (if n < 10 then [''0123456789'' ! n]
      else str_nat (n div 10) @ [''0123456789'' ! (n mod 10)])"

declare str_nat.simps [simp del]

subsection \<open>Paths\<close>

fun split_on :: "char \<Rightarrow> string \<Rightarrow> string list" where
  "split_on sep [] = [[]]"
| "split_on sep (c # cs) =
     (if c = sep then [] # split_on sep cs
      else (case split_on sep cs of
              [] \<Rightarrow> [[c]]
            | w # ws \<Rightarrow> (c # w) # ws))"

text \<open>
  The components pathlib keeps of a string: empty components and \<^verbatim>\<open>.\<close> are dropped,
  \<^verbatim>\<open>..\<close> is kept.
\<close>

definition parts :: "string \<Rightarrow> path" where
  "parts s = filter (\<lambda>c. c \<noteq> [] \<and> c \<noteq> ''.'') (split_on CHR ''/'' s)"

text \<open>\<^verbatim>\<open>base / name\<close>: an absolute \<open>name\<close> replaces \<open>base\<close>.\<close>

definition joinpath :: "path \<Rightarrow> string \<Rightarrow> path" where
  "joinpath base name = (if startswith name ''/'' then parts name else base @ parts name)"

definition is_relative_to :: "path \<Rightarrow> path \<Rightarrow> bool" where
  "is_relative_to p base = prefix base p"

subsection \<open>Base64\<close>

definition b64_alphabet :: string where
  "b64_alphabet = ''ABCDEFGHIJKLMNOPQRSTUVWXYZabcdefghijklmnopqrstuvwxyz0123456789+/''"

fun index_of :: "'a \<Rightarrow> 'a list \<Rightarrow> nat option" where
  "index_of x [] = None"
| "index_of x (y # ys) = (if x = y then Some 0 else map_option Suc (index_of x ys))"

text \<open>The decoding table of \<^verbatim>\<open>binascii\<close>: \<open>None\<close> for a character outside the alphabet.\<close>

definition b64_index :: "char \<Rightarrow> byte option" where
  "b64_index c = map_option of_nat (index_of c b64_alphabet)"

text \<open>
  The loop of \<^verbatim>\<open>binascii.a2b_base64\<close> in its default, non-strict mode, one character at
  a time: \<open>quad_pos\<close> is the position inside the current group of four characters,
  \<open>leftchar\<close> the bits left over from the previous character, \<open>pads\<close> the number of
  padding characters seen since the last data character.
\<close>

fun a2b_base64 :: "nat \<Rightarrow> byte \<Rightarrow> nat \<Rightarrow> string \<Rightarrow> bytes \<Rightarrow> exn + bytes" where
  "a2b_base64 quad_pos leftchar pads [] out =
     (if quad_pos \<noteq> 0 then Inl BinasciiError else Inr out)"
| "a2b_base64 quad_pos leftchar pads (c # cs) out =
     (if c = CHR ''='' then
        (if quad_pos \<ge> 2 \<and> quad_pos + (pads + 1) \<ge> 4 then Inr out
         else a2b_base64 quad_pos leftchar (if quad_pos \<ge> 2 then pads + 1 else pads) cs out)
      else
        (case b64_index c of
           None \<Rightarrow> a2b_base64 quad_pos leftchar pads cs out
         | Some this_ch \<Rightarrow>
             (if quad_pos = 0 then a2b_base64 1 this_ch 0 cs out
              else if quad_pos = 1 then
                a2b_base64 2 (this_ch AND 0x0f) 0 cs
                  (out @ [push_bit 2 leftchar OR drop_bit 4 this_ch])
              else if quad_pos = 2 then
                a2b_base64 3 (this_ch AND 0x03) 0 cs
                  (out @ [push_bit 4 leftchar OR drop_bit 2 this_ch])
              else
                a2b_base64 0 0 0 cs (out @ [push_bit 6 leftchar OR this_ch]))))"

text \<open>
  \<^verbatim>\<open>base64.b64decode\<close> on a string: the string is encoded as ASCII first, which raises
  \<^verbatim>\<open>ValueError\<close> on any other character.
\<close>

definition b64decode :: "string \<Rightarrow> exn + bytes" where
  "b64decode s =
     (if list_ex (\<lambda>c. (of_char c :: nat) \<ge> 128) s then Inl ValueError
      else a2b_base64 0 0 0 s [])"

text \<open>
  The base64 encoding of a byte string (RFC 4648, with padding), which the handler
  never computes: it is what a client sends.
\<close>

definition b64_char :: "byte \<Rightarrow> char" where
  "b64_char w = b64_alphabet ! unat w"

text \<open>The four 6-bit groups of three bytes \<open>a\<close>, \<open>b\<close>, \<open>c\<close>.\<close>

definition sextet1 :: "byte \<Rightarrow> byte" where
  "sextet1 a = drop_bit 2 a"

definition sextet2 :: "byte \<Rightarrow> byte \<Rightarrow> byte" where
  "sextet2 a b = push_bit 4 (a AND 0x03) OR drop_bit 4 b"

definition sextet3 :: "byte \<Rightarrow> byte \<Rightarrow> byte" where
  "sextet3 b c = push_bit 2 (b AND 0x0f) OR drop_bit 6 c"

definition sextet4 :: "byte \<Rightarrow> byte" where
  "sextet4 c = c AND 0x3f"

text \<open>A last group of one or two bytes is filled with zero bits and padded.\<close>

fun b64encode :: "bytes \<Rightarrow> string" where
  "b64encode [] = []"
| "b64encode [a] =
     [b64_char (sextet1 a), b64_char (sextet2 a 0), CHR ''='', CHR ''='']"
| "b64encode [a, b] =
     [b64_char (sextet1 a), b64_char (sextet2 a b), b64_char (sextet3 b 0), CHR ''='']"
| "b64encode (a # b # c # rest) =
     [b64_char (sextet1 a), b64_char (sextet2 a b), b64_char (sextet3 b c),
      b64_char (sextet4 c)]
     @ b64encode rest"

section \<open>The handler\<close>

definition empty_response :: "nat \<Rightarrow> response" where
  "empty_response code = \<lparr>resp_status = code, resp_headers = [], resp_body = []\<rparr>"

subsection \<open>Authentication (lines 28 to 39)\<close>

definition auth_gate :: "string option \<Rightarrow> request \<Rightarrow> outcome + unit" where
  "auth_gate token req =
     (case token of
        None \<Rightarrow> Inr ()
      | Some t \<Rightarrow>
          (case req_headers req ''Authorization'' of
             None \<Rightarrow> Inl (Response (empty_response 401))
           | Some v \<Rightarrow>
               if v \<noteq> ''Bearer '' @ t then Inl (Response (empty_response 403))
               else Inr ()))"

subsection \<open>Reading and parsing the body (lines 41 to 62)\<close>

text \<open>
  \<^verbatim>\<open>int(self.headers["Content-Length"])\<close> raises \<^verbatim>\<open>TypeError\<close> when the header is
  missing and \<^verbatim>\<open>ValueError\<close> when it is no integer. \<^verbatim>\<open>rfile\<close> is a buffered reader:
  \<^verbatim>\<open>read(-1)\<close> reads the whole stream, \<^verbatim>\<open>read\<close> with a size below -1 raises
  \<^verbatim>\<open>ValueError\<close>, and a size that does not fit a signed 64-bit integer raises
  \<^verbatim>\<open>OverflowError\<close>.
\<close>

definition read_body :: "env \<Rightarrow> request \<Rightarrow> outcome + bytes" where
  "read_body e req =
     (case req_headers req ''Content-Length'' of
        None \<Rightarrow> Inl (Uncaught TypeError)
      | Some v \<Rightarrow>
          (case py_int e v of
             None \<Rightarrow> Inl (Uncaught ValueError)
           | Some content_length \<Rightarrow>
               if content_length < - 1 then Inl (Uncaught ValueError)
               else if content_length \<ge> 2 ^ 63 then Inl (Uncaught OverflowError)
               else if content_length = - 1 then Inr (req_rfile req)
               else Inr (take (nat content_length) (req_rfile req))))"

definition parse_body :: "env \<Rightarrow> request \<Rightarrow> outcome + json" where
  "parse_body e req =
     (if req_headers req ''Content-Type'' \<noteq> Some ''application/json''
      then Inl (Response (empty_response 400))
      else
        (case read_body e req of
           Inl out \<Rightarrow> Inl out
         | Inr content \<Rightarrow>
             (case loads e content of
                Inl JSONDecodeError \<Rightarrow> Inl (Response (empty_response 400))
              | Inl OtherFault \<Rightarrow> Inl (Response (empty_response 500))
              | Inr payload \<Rightarrow> Inr payload)))"

subsection \<open>Validation of the payload (lines 64 to 90)\<close>

text \<open>
  \<^verbatim>\<open>key in payload\<close>: membership of a key in a dictionary, of an element in a list, of
  a substring in a string; \<^verbatim>\<open>TypeError\<close> on the other values.
\<close>

fun py_in :: "string \<Rightarrow> json \<Rightarrow> exn + bool" where
  "py_in k (JObj d) = Inr (k \<in> set (dict_keys d))"
| "py_in k (JArr xs) = Inr (JStr k \<in> set xs)"
| "py_in k (JStr s) = Inr (str_contains k s)"
| "py_in k _ = Inl TypeError"

text \<open>
  \<^verbatim>\<open>payload.pop("files")\<close> after the membership test succeeded: a list takes no string
  as index, a string has no \<^verbatim>\<open>pop\<close>.
\<close>

fun pop_files :: "json \<Rightarrow> exn + json \<times> (string \<times> json) list" where
  "pop_files (JObj d) = Inr (dict_pop ''files'' JNull d)"
| "pop_files (JArr xs) = Inl TypeError"
| "pop_files _ = Inl AttributeError"

definition is_dict :: "json \<Rightarrow> bool" where
  "is_dict v = (case v of JObj _ \<Rightarrow> True | _ \<Rightarrow> False)"

definition is_list :: "json \<Rightarrow> bool" where
  "is_list v = (case v of JArr _ \<Rightarrow> True | _ \<Rightarrow> False)"

definition the_dict :: "json \<Rightarrow> (string \<times> json) list" where
  "the_dict v = (case v of JObj d \<Rightarrow> d | _ \<Rightarrow> [])"

definition the_list :: "json \<Rightarrow> json list" where
  "the_list v = (case v of JArr xs \<Rightarrow> xs | _ \<Rightarrow> [])"

definition validate :: "json \<Rightarrow> outcome + job" where
  "validate payload =
     (case py_in ''files'' payload of
        Inl ex \<Rightarrow> Inl (Uncaught ex)
      | Inr False \<Rightarrow> Inl (Response (empty_response 400))
      | Inr True \<Rightarrow>
          (case pop_files payload of
             Inl ex \<Rightarrow> Inl (Uncaught ex)
           | Inr (files_v, payload1) \<Rightarrow>
               if \<not> is_dict files_v then Inl (Response (empty_response 400))
               else
                 (case dict_pop ''extra_files'' (JObj []) payload1 of
                    (extra_files_v, payload2) \<Rightarrow>
                      if \<not> is_dict extra_files_v then Inl (Response (empty_response 400))
                      else if ''args'' \<notin> set (dict_keys payload2)
                      then Inl (Response (empty_response 400))
                      else
                        (case dict_pop ''args'' JNull payload2 of
                           (args_v, payload3) \<Rightarrow>
                             if \<not> is_list args_v then Inl (Response (empty_response 400))
                             else Inr \<lparr>files = the_dict files_v,
                                       extra_files = the_dict extra_files_v,
                                       args = the_list args_v\<rparr>))))"

subsection \<open>Materialization (lines 98 to 124)\<close>

text \<open>
  The body of the loop for one entry of the merged mapping. \<^verbatim>\<open>startswith\<close> exists on
  strings only. In the branch for remote URLs the response of \<^verbatim>\<open>urlopen\<close> has no
  \<^verbatim>\<open>iter_content\<close>, so the loop over the chunks raises \<^verbatim>\<open>AttributeError\<close> once the
  resource has been opened.
\<close>

definition materialize_file :: "env \<Rightarrow> path \<Rightarrow> string \<times> json \<Rightarrow> (outcome + unit) \<times> event list" where
  "materialize_file e files_path entry =
     (case entry of (file_name, file_content) \<Rightarrow>
        (case resolve e (joinpath files_path file_name) of
           Inl ex \<Rightarrow> (Inl (Uncaught ex), [])
         | Inr file_path \<Rightarrow>
             if \<not> is_relative_to file_path files_path
             then (Inl (Response (empty_response 400)), [])
             else if file_content = JNull
             then (Inl (Response (empty_response 400)), [])
             else
               (case file_content of
                  JStr s \<Rightarrow>
                    if startswith s ''data:'' then
                      (case open_wb e file_path of
                         Some ex \<Rightarrow> (Inl (Uncaught ex), [])
                       | None \<Rightarrow>
                           (case urlopen e s of
                              Inl ex \<Rightarrow> (Inl (Uncaught ex), [Open file_path, Urlopen s])
                            | Inr data \<Rightarrow>
                                (Inr (), [Open file_path, Urlopen s, Write file_path data])))
                    else if startswith s ''http:'' \<or> startswith s ''https:'' then
                      (case open_wb e file_path of
                         Some ex \<Rightarrow> (Inl (Uncaught ex), [])
                       | None \<Rightarrow>
                           (case urlopen e s of
                              Inl ex \<Rightarrow> (Inl (Uncaught ex), [Open file_path, Urlopen s])
                            | Inr data \<Rightarrow>
                                (Inl (Uncaught AttributeError), [Open file_path, Urlopen s])))
                    else
                      (case open_wb e file_path of
                         Some ex \<Rightarrow> (Inl (Uncaught ex), [])
                       | None \<Rightarrow>
                           (case b64decode s of
                              Inl ex \<Rightarrow> (Inl (Uncaught ex), [Open file_path])
                            | Inr data \<Rightarrow> (Inr (), [Open file_path, Write file_path data])))
                | _ \<Rightarrow> (Inl (Uncaught AttributeError), []))))"

fun materialize_files :: "env \<Rightarrow> path \<Rightarrow> (string \<times> json) list \<Rightarrow> (outcome + unit) \<times> event list" where
  "materialize_files e files_path [] = (Inr (), [])"
| "materialize_files e files_path (entry # rest) =
     (case materialize_file e files_path entry of
        (Inl out, evs) \<Rightarrow> (Inl out, evs)
      | (Inr _, evs) \<Rightarrow>
          (case materialize_files e files_path rest of
             (r, evs') \<Rightarrow> (r, evs @ evs')))"

subsection \<open>Invocation of the tool and the response (lines 126 to 151)\<close>

text \<open>\<^verbatim>\<open>Popen\<close> raises \<^verbatim>\<open>TypeError\<close> on an argument that is no string.\<close>

fun strs_of :: "json list \<Rightarrow> string list option" where
  "strs_of [] = Some []"
| "strs_of (JStr s # vs) = map_option ((#) s) (strs_of vs)"
| "strs_of (_ # vs) = None"

fun written :: "event list \<Rightarrow> (path \<times> bytes) list" where
  "written [] = []"
| "written (Write p b # evs) = (p, b) # written evs"
| "written (_ # evs) = written evs"

definition run_pandoc ::
  "env \<Rightarrow> path \<Rightarrow> (path \<times> bytes) list \<Rightarrow> (string \<times> json) list \<Rightarrow> json list
     \<Rightarrow> outcome \<times> event list" where
  "run_pandoc e files_path disk fs as =
     (case strs_of as of
        None \<Rightarrow> (Uncaught TypeError, [])
      | Some ss \<Rightarrow>
          (let argv = ''pandoc'' # ss @ dict_keys fs @ [''-o'', ''-''] in
           case popen e argv files_path disk of
             Inl ex \<Rightarrow> (Uncaught ex, [])
           | Inr (returncode, pandoc_stdout, pandoc_stderr) \<Rightarrow>
               if returncode \<noteq> 0 then
                 (Response \<lparr>resp_status = 500, resp_headers = [],
                            resp_body = pandoc_stderr\<rparr>,
                  [Spawn argv files_path])
               else
                 (Response \<lparr>resp_status = 200,
                            resp_headers =
                              [(''Content-Type'', ''application/octet-stream''),
                               (''Content-Length'', str_nat (length pandoc_stdout))],
                            resp_body = pandoc_stdout\<rparr>,
                  [Spawn argv files_path])))"

subsection \<open>The sandbox (lines 92 to 151)\<close>

definition sandbox_body :: "env \<Rightarrow> path \<Rightarrow> job \<Rightarrow> outcome \<times> event list" where
  "sandbox_body e files_path j =
     (case materialize_files e files_path (dict_merge (files j) (extra_files j)) of
        (Inl out, evs) \<Rightarrow> (out, evs)
      | (Inr _, evs) \<Rightarrow>
          (case run_pandoc e files_path (written evs) (files j) (args j) of
             (out, evs') \<Rightarrow> (out, evs @ evs')))"

text \<open>
  \<^verbatim>\<open>with TemporaryDirectory() as tmpdir\<close>: the directory is removed when the block is
  left, by a \<^verbatim>\<open>return\<close>, by an exception or at its end.
\<close>

definition with_sandbox :: "env \<Rightarrow> job \<Rightarrow> outcome \<times> event list" where
  "with_sandbox e j =
     (case resolve e (tmpdir e) of
        Inl ex \<Rightarrow> (Uncaught ex, [Mkdtemp (tmpdir e), Rmtree (tmpdir e)])
      | Inr tmp_path \<Rightarrow>
          (let files_path = joinpath tmp_path ''files'' in
           case sandbox_body e files_path j of
             (out, evs) \<Rightarrow>
               (out, [Mkdtemp (tmpdir e), Mkdir files_path] @ evs @ [Rmtree (tmpdir e)])))"

subsection \<open>The whole handler\<close>

definition after_auth :: "env \<Rightarrow> request \<Rightarrow> outcome \<times> event list" where
  "after_auth e req =
     (case parse_body e req of
        Inl out \<Rightarrow> (out, [])
      | Inr payload \<Rightarrow>
          (case validate payload of
             Inl out \<Rightarrow> (out, [])
           | Inr j \<Rightarrow> with_sandbox e j))"

definition do_POST :: "string option \<Rightarrow> env \<Rightarrow> request \<Rightarrow> outcome \<times> event list" where
  "do_POST token e req =
     (if req_path req \<noteq> ''/'' then (Response (empty_response 404), [])
      else
        (case auth_gate token req of
           Inl out \<Rightarrow> (out, [])
         | Inr _ \<Rightarrow> after_auth e req))"

text \<open>The job a request reaches the sandbox with, if it does.\<close>

definition accepted_job :: "string option \<Rightarrow> env \<Rightarrow> request \<Rightarrow> job option" where
  "accepted_job token e req =
     (if req_path req \<noteq> ''/'' then None
      else
        (case auth_gate token req of
           Inl out \<Rightarrow> None
         | Inr _ \<Rightarrow>
             (case parse_body e req of
                Inl out \<Rightarrow> None
              | Inr payload \<Rightarrow>
                  (case validate payload of
                     Inl out \<Rightarrow> None
                   | Inr j \<Rightarrow> Some j))))"

section \<open>A host to run the handler on\<close>

text \<open>
  A host without symbolic links, on which \<^verbatim>\<open>resolve()\<close> only removes the \<^verbatim>\<open>..\<close>
  components, whose sandbox is \<^verbatim>\<open>/tmp/tmpq1w2e3\<close>, and where a file can be opened for
  writing directly inside the \<^verbatim>\<open>files\<close> directory only, since the handler creates no
  other directory. The body of every request parses to the given payload, every URL
  yields the bytes of \<^verbatim>\<open>hi\<close>, and the tool is the given function.
\<close>

definition lexical_resolve :: "path \<Rightarrow> exn + path" where
  "lexical_resolve p =
     Inr (fold (\<lambda>c acc. if c = ''..'' then butlast acc else acc @ [c]) p [])"

definition host_files_path :: path where
  "host_files_path = [''tmp'', ''tmpq1w2e3'', ''files'']"

definition host_open :: "path \<Rightarrow> exn option" where
  "host_open p = (if butlast p = host_files_path then None else Some OSError)"

fun decimal :: "int \<Rightarrow> string \<Rightarrow> int option" where
  "decimal acc [] = Some acc"
| "decimal acc (c # cs) =
     (case index_of c ''0123456789'' of
        None \<Rightarrow> None
      | Some d \<Rightarrow> decimal (10 * acc + int d) cs)"

definition host ::
  "json \<Rightarrow> (string list \<Rightarrow> path \<Rightarrow> (path \<times> bytes) list \<Rightarrow> exn + (int \<times> bytes \<times> bytes)) \<Rightarrow> env" where
  "host payload tool =
     \<lparr>py_int = (\<lambda>s. if s = [] then None else decimal 0 s),
      loads = (\<lambda>content. Inr payload),
      tmpdir = [''tmp'', ''tmpq1w2e3''],
      resolve = lexical_resolve,
      open_wb = host_open,
      urlopen = (\<lambda>url. Inr [0x68, 0x69]),
      popen = tool\<rparr>"

text \<open>A tool that succeeds and prints \<^verbatim>\<open>ok\<close>, and one that fails with \<^verbatim>\<open>no\<close>.\<close>

definition tool_ok :: "string list \<Rightarrow> path \<Rightarrow> (path \<times> bytes) list \<Rightarrow> exn + (int \<times> bytes \<times> bytes)" where
  "tool_ok argv cwd disk = Inr (0, [0x6f, 0x6b], [])"

definition tool_fails :: "string list \<Rightarrow> path \<Rightarrow> (path \<times> bytes) list \<Rightarrow> exn + (int \<times> bytes \<times> bytes)" where
  "tool_fails argv cwd disk = Inr (64, [], [0x6e, 0x6f])"


section \<open>Base64: decoding inverts encoding\<close>

lemma below_8: "k < 8 \<Longrightarrow> k \<in> {0, 1, 2, 3, 4, 5, 6, 7 :: nat}"
  by (simp only: insert_iff empty_iff) arith

text \<open>Two bytes are equal when their eight bits are.\<close>

lemma byte_eqI:
  assumes "bit a 0 = bit b 0" and "bit a 1 = bit b 1" and "bit a 2 = bit b 2"
    and "bit a 3 = bit b 3" and "bit a 4 = bit b 4" and "bit a 5 = bit b 5"
    and "bit a 6 = bit b 6" and "bit a 7 = bit b 7"
  shows "a = (b::byte)"
proof (rule bit_word_eqI)
  fix k
  assume "k < LENGTH(8)"
  then have "k < 8"
    by simp
  then have "k \<in> {0, 1, 2, 3, 4, 5, 6, 7 :: nat}"
    by (rule below_8)
  with assms show "bit a k = bit b k"
    by (elim insertE emptyE) simp_all
qed

lemma byte_high: "8 \<le> n \<Longrightarrow> bit (a::byte) n = False"
  using bit_imp_le_length [of a n] by auto

lemma mask_03: "(0x03::byte) = mask 2"
  by (simp add: mask_eq_exp_minus_1)

lemma mask_0f: "(0x0f::byte) = mask 4"
  by (simp add: mask_eq_exp_minus_1)

lemma mask_3f: "(0x3f::byte) = mask 6"
  by (simp add: mask_eq_exp_minus_1)

lemmas byte_bits = bit_simps mask_03 mask_0f mask_3f byte_high

lemma sextet_bound:
  assumes "w AND 0x3f = w"
  shows "unat (w::byte) < 64"
proof -
  have "unat (w AND 0x3f) \<le> unat (0x3f :: byte)"
    by (rule word_and_le1 [THEN word_le_nat_alt [THEN iffD1]])
  with assms show ?thesis by simp
qed

lemma sextet_1: "unat (sextet1 a) < 64"
  unfolding sextet1_def by (rule sextet_bound, rule byte_eqI) (simp_all add: byte_bits)

lemma sextet_2: "unat (sextet2 a b) < 64"
  unfolding sextet2_def by (rule sextet_bound, rule byte_eqI) (simp_all add: byte_bits)

lemma sextet_3: "unat (sextet3 b c) < 64"
  unfolding sextet3_def by (rule sextet_bound, rule byte_eqI) (simp_all add: byte_bits)

lemma sextet_4: "unat (sextet4 c) < 64"
  unfolding sextet4_def by (rule sextet_bound, rule byte_eqI) (simp_all add: byte_bits)

lemmas sextets = sextet_1 sextet_2 sextet_3 sextet_4

text \<open>What the decoder puts together from the groups are the three bytes.\<close>

lemma byte_1: "push_bit 2 (sextet1 a) OR drop_bit 4 (sextet2 a b) = a"
  unfolding sextet1_def sextet2_def by (rule byte_eqI) (simp_all add: byte_bits)

lemma byte_2: "push_bit 4 (sextet2 a b AND 0x0f) OR drop_bit 2 (sextet3 b c) = b"
  unfolding sextet2_def sextet3_def by (rule byte_eqI) (simp_all add: byte_bits)

lemma byte_3: "push_bit 6 (sextet3 b c AND 0x03) OR sextet4 c = c"
  unfolding sextet3_def sextet4_def by (rule byte_eqI) (simp_all add: byte_bits)

lemma index_of_nth: "distinct xs \<Longrightarrow> n < length xs \<Longrightarrow> index_of (xs ! n) xs = Some n"
proof (induction xs arbitrary: n)
  case Nil
  then show ?case by simp
next
  case (Cons x xs)
  then show ?case by (cases n) auto
qed

lemma distinct_alphabet: "distinct b64_alphabet"
  unfolding b64_alphabet_def by simp

lemma length_alphabet: "length b64_alphabet = 64"
  unfolding b64_alphabet_def by simp

lemma alphabet_chars:
  "c \<in> set b64_alphabet \<Longrightarrow> c \<noteq> CHR ''='' \<and> c \<noteq> CHR '':'' \<and> (of_char c :: nat) < 128"
  unfolding b64_alphabet_def by auto

lemma b64_char_alphabet: "unat w < 64 \<Longrightarrow> b64_char w \<in> set b64_alphabet"
  by (simp add: b64_char_def length_alphabet)

lemma b64_index_char: "unat w < 64 \<Longrightarrow> b64_index (b64_char w) = Some w"
  by (simp add: b64_index_def b64_char_def index_of_nth distinct_alphabet length_alphabet)

lemma b64_char_not_pad: "unat w < 64 \<Longrightarrow> b64_char w \<noteq> CHR ''=''"
  using alphabet_chars b64_char_alphabet by blast

text \<open>One data character moves the decoder from each position to the next.\<close>

lemma a2b_data_0:
  "unat w < 64 \<Longrightarrow> a2b_base64 0 l p (b64_char w # cs) out = a2b_base64 1 w 0 cs out"
  by (simp add: b64_index_char b64_char_not_pad)

lemma a2b_data_1:
  "unat w < 64 \<Longrightarrow> a2b_base64 1 l p (b64_char w # cs) out =
     a2b_base64 2 (w AND 0x0f) 0 cs (out @ [push_bit 2 l OR drop_bit 4 w])"
  by (simp add: b64_index_char b64_char_not_pad)

lemma a2b_data_2:
  "unat w < 64 \<Longrightarrow> a2b_base64 2 l p (b64_char w # cs) out =
     a2b_base64 3 (w AND 0x03) 0 cs (out @ [push_bit 4 l OR drop_bit 2 w])"
  by (simp add: b64_index_char b64_char_not_pad)

lemma a2b_data_3:
  "unat w < 64 \<Longrightarrow> a2b_base64 3 l p (b64_char w # cs) out =
     a2b_base64 0 0 0 cs (out @ [push_bit 6 l OR w])"
  by (simp add: b64_index_char b64_char_not_pad)

text \<open>Padding ends the decoding once the group is complete.\<close>

lemma a2b_pad_2: "a2b_base64 2 l 0 (CHR ''='' # CHR ''='' # cs) out = Inr out"
  by simp

lemma a2b_pad_3: "a2b_base64 3 l 0 (CHR ''='' # cs) out = Inr out"
  by simp

lemmas a2b_steps =
  a2b_data_0 [OF sextet_1] a2b_data_1 [OF sextet_2] a2b_data_2 [OF sextet_3]
  a2b_data_3 [OF sextet_4] a2b_pad_2 a2b_pad_3 byte_1 byte_2 byte_3

lemma a2b_encoded: "a2b_base64 0 l 0 (b64encode bs) out = Inr (out @ bs)"
proof (induction bs arbitrary: l out rule: b64encode.induct)
  case 1
  show ?case by simp
next
  case (2 a)
  show ?case by (simp only: b64encode.simps a2b_steps)
next
  case (3 a b)
  show ?case by (simp only: b64encode.simps a2b_steps append_assoc append_Cons append_Nil)
next
  case (4 a b c rest)
  show ?case
    by (simp only: b64encode.simps a2b_steps "4.IH" append_assoc append_Cons append_Nil)
qed

lemma b64encode_chars: "c \<in> set (b64encode bs) \<Longrightarrow> c \<in> set b64_alphabet \<or> c = CHR ''=''"
  by (induction bs rule: b64encode.induct) (auto simp: b64_char_alphabet sextets)

lemma b64encode_ascii: "\<not> list_ex (\<lambda>c. (of_char c :: nat) \<ge> 128) (b64encode bs)"
proof -
  have "(of_char c :: nat) < 128" if "c \<in> set (b64encode bs)" for c
    using b64encode_chars [OF that] alphabet_chars [of c] by auto
  then show ?thesis unfolding list_ex_iff by (meson not_le)
qed

lemma b64decode_b64encode: "b64decode (b64encode bs) = Inr bs"
  by (simp add: b64decode_def b64encode_ascii a2b_encoded)

lemma b64encode_no_colon: "CHR '':'' \<notin> set (b64encode bs)"
  using b64encode_chars [of "CHR '':''" bs] alphabet_chars [of "CHR '':''"] by auto

lemma startswith_set: "startswith s p \<Longrightarrow> set p \<subseteq> set s"
  unfolding startswith_def by (auto simp: prefix_def)

lemma b64encode_no_scheme:
  "\<not> startswith (b64encode bs) ''data:''"
  "\<not> startswith (b64encode bs) ''http:''"
  "\<not> startswith (b64encode bs) ''https:''"
  using b64encode_no_colon [of bs] startswith_set [of "b64encode bs"] by fastforce+

text \<open>
  C9. A descriptor that is the base64 encoding of a byte string \<open>b\<close> is never taken for
  a data URI or a remote URL, and where the target passes the path check and can be
  opened, the entry is materialized by opening the target and writing exactly \<open>b\<close>.
\<close>

theorem base64_roundtrip:
  assumes "resolve e (joinpath files_path file_name) = Inr file_path"
    and "is_relative_to file_path files_path"
    and "open_wb e file_path = None"
  shows "materialize_file e files_path (file_name, JStr (b64encode b)) =
           (Inr (), [Open file_path, Write file_path b])"
  using assms
  by (simp add: materialize_file_def b64encode_no_scheme b64decode_b64encode)

theorem base64_roundtrip_witness:
  "resolve (host JNull tool_ok) (joinpath host_files_path ''a.md'')
     = Inr [''tmp'', ''tmpq1w2e3'', ''files'', ''a.md'']
   \<and> is_relative_to [''tmp'', ''tmpq1w2e3'', ''files'', ''a.md''] host_files_path
   \<and> open_wb (host JNull tool_ok) [''tmp'', ''tmpq1w2e3'', ''files'', ''a.md''] = None
   \<and> b64encode [0x23, 0x20, 0x54, 0x69, 0x74, 0x6c, 0x65] = ''IyBUaXRsZQ==''
   \<and> materialize_file (host JNull tool_ok) host_files_path (''a.md'', JStr ''IyBUaXRsZQ=='') =
       (Inr (), [Open [''tmp'', ''tmpq1w2e3'', ''files'', ''a.md''],
                 Write [''tmp'', ''tmpq1w2e3'', ''files'', ''a.md'']
                   [0x23, 0x20, 0x54, 0x69, 0x74, 0x6c, 0x65]])"
proof -
  have r: "resolve (host JNull tool_ok) (joinpath host_files_path ''a.md'')
             = Inr [''tmp'', ''tmpq1w2e3'', ''files'', ''a.md'']"
    by (simp add: host_def lexical_resolve_def joinpath_def parts_def startswith_def
        host_files_path_def)
  have i: "is_relative_to [''tmp'', ''tmpq1w2e3'', ''files'', ''a.md''] host_files_path"
    by (simp add: is_relative_to_def host_files_path_def)
  have o: "open_wb (host JNull tool_ok) [''tmp'', ''tmpq1w2e3'', ''files'', ''a.md''] = None"
    by (simp add: host_def host_open_def host_files_path_def)
  have enc: "b64encode [0x23, 0x20, 0x54, 0x69, 0x74, 0x6c, 0x65] = ''IyBUaXRsZQ==''"
    by code_simp
  show ?thesis
    using base64_roundtrip [OF r i o, of "[0x23, 0x20, 0x54, 0x69, 0x74, 0x6c, 0x65]"] r i o enc
    by simp
qed


section \<open>The merged mapping\<close>








section \<open>The materialization loop\<close>

text \<open>Every file the loop body opens or writes lies under the \<^verbatim>\<open>files\<close> directory.\<close>

lemma materialize_file_events:
  assumes "ev \<in> set (snd (materialize_file e fp x))"
  shows "(\<exists>p. ev = Open p \<and> is_relative_to p fp)
       \<or> (\<exists>p b. ev = Write p b \<and> is_relative_to p fp)
       \<or> (\<exists>u. ev = Urlopen u)"
  using assms
  by (auto simp: materialize_file_def
      split: prod.splits sum.splits if_splits json.splits option.splits)

lemma materialize_file_outcome:
  assumes "fst (materialize_file e fp x) = Inl out"
  shows "out = Response (empty_response 400) \<or> (\<exists>ex. out = Uncaught ex)"
  using assms
  by (auto simp: materialize_file_def
      split: prod.splits sum.splits if_splits json.splits option.splits)

lemma materialize_files_events:
  assumes "ev \<in> set (snd (materialize_files e fp xs))"
  shows "(\<exists>p. ev = Open p \<and> is_relative_to p fp)
       \<or> (\<exists>p b. ev = Write p b \<and> is_relative_to p fp)
       \<or> (\<exists>u. ev = Urlopen u)"
  using assms
proof (induction xs)
  case Nil
  then show ?case by simp
next
  case (Cons x xs)
  then show ?case
    using materialize_file_events [of ev e fp x]
    by (auto split: prod.splits sum.splits)
qed

lemma materialize_files_outcome:
  assumes "fst (materialize_files e fp xs) = Inl out"
  shows "out = Response (empty_response 400) \<or> (\<exists>ex. out = Uncaught ex)"
  using assms
proof (induction xs)
  case Nil
  then show ?case by simp
next
  case (Cons x xs)
  then show ?case
    using materialize_file_outcome [of e fp x out]
    by (auto split: prod.splits sum.splits)
qed

text \<open>The loop stops at the first entry whose body does not fall through.\<close>

lemma materialize_files_stop:
  assumes "fst (materialize_files e fp pre) = Inr ()"
    and "fst (materialize_file e fp x) = Inl out"
  shows "fst (materialize_files e fp (pre @ x # post)) = Inl out"
  using assms
  by (induction pre) (auto split: prod.splits sum.splits)

lemma materialize_files_not_complete:
  assumes "x \<in> set xs" and "fst (materialize_file e fp x) = Inl out"
  shows "\<exists>out'. fst (materialize_files e fp xs) = Inl out'"
  using assms
  by (induction xs) (auto split: prod.splits sum.splits)



section \<open>The tool\<close>

lemma strs_of_Some: "strs_of as = Some ss \<Longrightarrow> as = map JStr ss"
  by (induction as arbitrary: ss rule: strs_of.induct) auto

lemma run_pandoc_spawn:
  assumes "ev \<in> set (snd (run_pandoc e fp disk fs as))"
  shows "\<exists>ss rc out err.
           strs_of as = Some ss
         \<and> ev = Spawn (''pandoc'' # ss @ dict_keys fs @ [''-o'', ''-'']) fp
         \<and> snd (run_pandoc e fp disk fs as) = [ev]
         \<and> popen e (''pandoc'' # ss @ dict_keys fs @ [''-o'', ''-'']) fp disk = Inr (rc, out, err)
         \<and> (\<exists>r. fst (run_pandoc e fp disk fs as) = Response r
                \<and> (resp_body r = out \<or> resp_body r = err))"
  using assms
  by (auto simp: run_pandoc_def Let_def split: option.splits sum.splits prod.splits if_splits)

lemma sandbox_body_spawn:
  assumes "Spawn argv cwd \<in> set (snd (sandbox_body e fp j))"
  shows "fst (materialize_files e fp (dict_merge (files j) (extra_files j))) = Inr ()
       \<and> snd (sandbox_body e fp j) =
           snd (materialize_files e fp (dict_merge (files j) (extra_files j))) @ [Spawn argv cwd]
       \<and> Spawn argv cwd \<in> set (snd (run_pandoc e fp
             (written (snd (materialize_files e fp (dict_merge (files j) (extra_files j)))))
             (files j) (args j)))"
proof -
  let ?m = "materialize_files e fp (dict_merge (files j) (extra_files j))"
  obtain r evs where m: "?m = (r, evs)" by (cases ?m)
  have nospawn: "Spawn argv cwd \<notin> set evs"
    using materialize_files_events [of "Spawn argv cwd" e fp "dict_merge (files j) (extra_files j)"] m
    by auto
  show ?thesis
  proof (cases r)
    case (Inl out)
    with m nospawn assms show ?thesis by (simp add: sandbox_body_def)
  next
    case (Inr u)
    obtain out evs' where p: "run_pandoc e fp (written evs) (files j) (args j) = (out, evs')"
      by (cases "run_pandoc e fp (written evs) (files j) (args j)")
    from assms m Inr p nospawn have s: "Spawn argv cwd \<in> set evs'"
      by (simp add: sandbox_body_def)
    then have "evs' = [Spawn argv cwd]"
      using run_pandoc_spawn [of "Spawn argv cwd" e fp "written evs" "files j" "args j"] p
      by auto
    with m Inr p s show ?thesis by (simp add: sandbox_body_def)
  qed
qed

text \<open>Inside the sandbox block, files are opened and written under \<^verbatim>\<open>files\<close> only.\<close>

lemma sandbox_body_events:
  assumes "ev \<in> set (snd (sandbox_body e fp j))"
  shows "(\<exists>p. ev = Open p \<and> is_relative_to p fp)
       \<or> (\<exists>p b. ev = Write p b \<and> is_relative_to p fp)
       \<or> (\<exists>u. ev = Urlopen u)
       \<or> (\<exists>argv. ev = Spawn argv fp)"
proof -
  let ?m = "materialize_files e fp (dict_merge (files j) (extra_files j))"
  obtain r evs where m: "?m = (r, evs)" by (cases ?m)
  note me = materialize_files_events [of ev e fp "dict_merge (files j) (extra_files j)"]
  show ?thesis
  proof (cases r)
    case (Inl out)
    with m assms have "ev \<in> set evs" by (simp add: sandbox_body_def)
    with m me show ?thesis by auto
  next
    case (Inr u)
    obtain out evs' where p: "run_pandoc e fp (written evs) (files j) (args j) = (out, evs')"
      by (cases "run_pandoc e fp (written evs) (files j) (args j)")
    from assms m Inr p have "ev \<in> set evs \<or> ev \<in> set evs'"
      by (simp add: sandbox_body_def)
    then show ?thesis
    proof
      assume "ev \<in> set evs"
      with m me show ?thesis by auto
    next
      assume "ev \<in> set evs'"
      then show ?thesis
        using run_pandoc_spawn [of ev e fp "written evs" "files j" "args j"] p by auto
    qed
  qed
qed

section \<open>Claims about materialization\<close>

lemmas host_eval =
  host_def lexical_resolve_def host_open_def host_files_path_def joinpath_def parts_def
  startswith_def is_relative_to_def materialize_file_def sandbox_body_def with_sandbox_def
  run_pandoc_def dict_merge_def dict_keys_def b64decode_def b64_index_def b64_alphabet_def
  empty_response_def tool_ok_def tool_fails_def

text \<open>
  C10. For an entry that passes the path check, the loop body answers 400 exactly when
  the descriptor is JSON null. A descriptor that is neither null nor a string is not
  rejected: it reaches the prefix dispatch, where \<^verbatim>\<open>startswith\<close> raises
  \<^verbatim>\<open>AttributeError\<close> before any file is opened.
\<close>

theorem null_content_rejected:
  assumes "resolve e (joinpath fp file_name) = Inr file_path"
    and "is_relative_to file_path fp"
  shows "(fst (materialize_file e fp (file_name, file_content))
            = Inl (Response (empty_response 400)) \<longleftrightarrow> file_content = JNull)
       \<and> (file_content \<noteq> JNull \<and> (\<forall>s. file_content \<noteq> JStr s) \<longrightarrow>
            materialize_file e fp (file_name, file_content) = (Inl (Uncaught AttributeError), []))"
  using assms
  by (cases file_content)
    (auto simp: materialize_file_def split: sum.splits option.splits)

theorem null_content_rejected_witness:
  "resolve (host JNull tool_ok) (joinpath host_files_path ''a.md'')
     = Inr [''tmp'', ''tmpq1w2e3'', ''files'', ''a.md'']
   \<and> is_relative_to [''tmp'', ''tmpq1w2e3'', ''files'', ''a.md''] host_files_path
   \<and> fst (materialize_file (host JNull tool_ok) host_files_path (''a.md'', JNull))
       = Inl (Response (empty_response 400))
   \<and> fst (materialize_file (host JNull tool_ok) host_files_path (''a.md'', JNum 5))
       \<noteq> Inl (Response (empty_response 400))
   \<and> materialize_file (host JNull tool_ok) host_files_path (''a.md'', JNum 5)
       = (Inl (Uncaught AttributeError), [])"
proof -
  have r: "resolve (host JNull tool_ok) (joinpath host_files_path ''a.md'')
             = Inr [''tmp'', ''tmpq1w2e3'', ''files'', ''a.md'']"
    by (simp add: host_eval)
  have i: "is_relative_to [''tmp'', ''tmpq1w2e3'', ''files'', ''a.md''] host_files_path"
    by (simp add: host_eval)
  show ?thesis
    using null_content_rejected [OF r i, of JNull] null_content_rejected [OF r i, of "JNum 5"] r i
    by simp
qed

text \<open>
  A descriptor that starts with \<^verbatim>\<open>http:\<close> or \<^verbatim>\<open>https:\<close> is never written: the
  loop body ends with an exception, from \<^verbatim>\<open>resolve\<close>, from \<^verbatim>\<open>open\<close>, from \<^verbatim>\<open>urlopen\<close>
  or, when the resource was opened, from the missing \<^verbatim>\<open>iter_content\<close>; or with the 400
  of the path check.
\<close>

lemma remote_descriptor_raises:
  assumes "startswith s ''http:'' \<or> startswith s ''https:''"
  shows "fst (materialize_file e fp (file_name, JStr s)) \<noteq> Inr ()
       \<and> (\<forall>p b. Write p b \<notin> set (snd (materialize_file e fp (file_name, JStr s))))"
proof -
  from assms have "\<not> startswith s ''data:''"
    by (auto simp: startswith_def prefix_def)
  with assms show ?thesis
    by (auto simp: materialize_file_def split: sum.splits option.splits)
qed

text \<open>
  C7. On the job \<^verbatim>\<open>{"files": {"a.md": "http://example.com/a.md"}, "args": []}\<close>, with a
  host on which the URL can be fetched, the handler opens the target, opens the URL and
  raises \<^verbatim>\<open>AttributeError\<close>: nothing is written to the file, the tool is not run, no
  response is sent.
\<close>

theorem remote_url_not_written:
  "with_sandbox (host JNull tool_ok)
     \<lparr>files = [(''a.md'', JStr ''http://example.com/a.md'')], extra_files = [], args = []\<rparr>
   = (Uncaught AttributeError,
      [Mkdtemp [''tmp'', ''tmpq1w2e3''],
       Mkdir [''tmp'', ''tmpq1w2e3'', ''files''],
       Open [''tmp'', ''tmpq1w2e3'', ''files'', ''a.md''],
       Urlopen ''http://example.com/a.md'',
       Rmtree [''tmp'', ''tmpq1w2e3'']])"
  by (simp add: host_eval)

text \<open>
  C1, as the handler has it. Let an entry of the merged mapping resolve to a path that
  is not under the \<^verbatim>\<open>files\<close> directory. If the loop body falls through for every
  entry before it, the request is answered with 400. In any case the request ends with
  400 or with an uncaught exception of an earlier entry, the tool is not run, and every
  file opened or written lies under the \<^verbatim>\<open>files\<close> directory.
\<close>

theorem path_traversal_rejected:
  assumes "dict_merge (files j) (extra_files j) = pre @ (file_name, file_content) # post"
    and "resolve e (joinpath fp file_name) = Inr file_path"
    and "\<not> is_relative_to file_path fp"
  shows "(fst (materialize_files e fp pre) = Inr () \<longrightarrow>
            fst (sandbox_body e fp j) = Response (empty_response 400))
       \<and> (fst (sandbox_body e fp j) = Response (empty_response 400)
            \<or> (\<exists>ex. fst (sandbox_body e fp j) = Uncaught ex))
       \<and> (\<forall>p. Open p \<in> set (snd (sandbox_body e fp j)) \<longrightarrow> is_relative_to p fp)
       \<and> (\<forall>p b. Write p b \<in> set (snd (sandbox_body e fp j)) \<longrightarrow> is_relative_to p fp)
       \<and> (\<forall>argv cwd. Spawn argv cwd \<notin> set (snd (sandbox_body e fp j)))"
proof -
  let ?merged = "dict_merge (files j) (extra_files j)"
  let ?x = "(file_name, file_content)"
  have x: "fst (materialize_file e fp ?x) = Inl (Response (empty_response 400))"
    using assms(2,3) by (simp add: materialize_file_def)
  have "?x \<in> set ?merged"
    using assms(1) by simp
  then obtain out where out: "fst (materialize_files e fp ?merged) = Inl out"
    using materialize_files_not_complete [OF _ x] by blast
  then have body: "fst (sandbox_body e fp j) = out"
    by (cases "materialize_files e fp ?merged") (simp add: sandbox_body_def)
  have a: "fst (materialize_files e fp pre) = Inr () \<longrightarrow>
             fst (sandbox_body e fp j) = Response (empty_response 400)"
    using materialize_files_stop [OF _ x, of pre post] out assms(1) body by auto
  have b: "fst (sandbox_body e fp j) = Response (empty_response 400)
         \<or> (\<exists>ex. fst (sandbox_body e fp j) = Uncaught ex)"
    using materialize_files_outcome [OF out] body by simp
  have c: "\<forall>p. Open p \<in> set (snd (sandbox_body e fp j)) \<longrightarrow> is_relative_to p fp"
    using sandbox_body_events [of _ e fp j] by fastforce
  have d: "\<forall>p b. Write p b \<in> set (snd (sandbox_body e fp j)) \<longrightarrow> is_relative_to p fp"
    using sandbox_body_events [of _ e fp j] by fastforce
  have f: "\<forall>argv cwd. Spawn argv cwd \<notin> set (snd (sandbox_body e fp j))"
    using sandbox_body_spawn [of _ _ e fp j] out by fastforce
  from a b c d f show ?thesis by blast
qed

theorem path_traversal_rejected_witness:
  "resolve (host JNull tool_ok) (joinpath host_files_path ''/etc/passwd'')
     = Inr [''etc'', ''passwd'']
   \<and> \<not> is_relative_to [''etc'', ''passwd''] host_files_path
   \<and> sandbox_body (host JNull tool_ok) host_files_path
         \<lparr>files = [(''/etc/passwd'', JStr ''QQ=='')], extra_files = [], args = []\<rparr>
       = (Response (empty_response 400), [])
   \<and> dict_merge [(''a'', JStr ''QQ==''), (''../b'', JStr [])] []
     = [(''a'', JStr ''QQ=='')] @ (''../b'', JStr []) # []
   \<and> resolve (host JNull tool_ok) (joinpath host_files_path ''../b'')
       = Inr [''tmp'', ''tmpq1w2e3'', ''b'']
   \<and> \<not> is_relative_to [''tmp'', ''tmpq1w2e3'', ''b''] host_files_path
   \<and> fst (materialize_files (host JNull tool_ok) host_files_path [(''a'', JStr ''QQ=='')])
       = Inr ()
   \<and> sandbox_body (host JNull tool_ok) host_files_path
         \<lparr>files = [(''a'', JStr ''QQ==''), (''../b'', JStr [])], extra_files = [], args = []\<rparr>
       = (Response (empty_response 400),
          [Open [''tmp'', ''tmpq1w2e3'', ''files'', ''a''],
           Write [''tmp'', ''tmpq1w2e3'', ''files'', ''a''] [0x41]])"
proof -
  let ?j = "\<lparr>files = [(''a'', JStr ''QQ==''), (''../b'', JStr [])], extra_files = [],
             args = []\<rparr>"
  have m: "dict_merge (files ?j) (extra_files ?j)
             = [(''a'', JStr ''QQ=='')] @ (''../b'', JStr []) # []"
    by (simp add: host_eval)
  have r: "resolve (host JNull tool_ok) (joinpath host_files_path ''../b'')
             = Inr [''tmp'', ''tmpq1w2e3'', ''b'']"
    by (simp add: host_eval)
  have i: "\<not> is_relative_to [''tmp'', ''tmpq1w2e3'', ''b''] host_files_path"
    by (simp add: host_eval)
  have p: "fst (materialize_files (host JNull tool_ok) host_files_path [(''a'', JStr ''QQ=='')])
             = Inr ()"
    by (simp add: host_eval)
  have s: "snd (sandbox_body (host JNull tool_ok) host_files_path ?j)
             = [Open [''tmp'', ''tmpq1w2e3'', ''files'', ''a''],
                Write [''tmp'', ''tmpq1w2e3'', ''files'', ''a''] [0x41]]"
    by (simp add: host_eval)
  let ?j' = "\<lparr>files = [(''/etc/passwd'', JStr ''QQ=='')], extra_files = [], args = []\<rparr>"
  have m': "dict_merge (files ?j') (extra_files ?j') = [] @ (''/etc/passwd'', JStr ''QQ=='') # []"
    by (simp add: host_eval)
  have r': "resolve (host JNull tool_ok) (joinpath host_files_path ''/etc/passwd'')
              = Inr [''etc'', ''passwd'']"
    by (simp add: host_eval)
  have i': "\<not> is_relative_to [''etc'', ''passwd''] host_files_path"
    by (simp add: host_eval)
  have s': "snd (sandbox_body (host JNull tool_ok) host_files_path ?j') = []"
    by (simp add: host_eval)
  show ?thesis
    using path_traversal_rejected [OF m r i] path_traversal_rejected [OF m' r' i']
      m r i p s r' i' s'
    by (simp add: prod_eq_iff)
qed

text \<open>
  The claim C1 as stated fails when an earlier entry raises: with the files
  \<^verbatim>\<open>{"a": 1, "../b": ""}\<close> the entry \<^verbatim>\<open>../b\<close> resolves to a path outside the \<^verbatim>\<open>files\<close>
  directory, and the request ends with \<^verbatim>\<open>AttributeError\<close>, not with 400.
\<close>

theorem path_traversal_counterexample:
  "resolve (host JNull tool_ok) (joinpath host_files_path ''../b'')
     = Inr [''tmp'', ''tmpq1w2e3'', ''b'']
   \<and> \<not> is_relative_to [''tmp'', ''tmpq1w2e3'', ''b''] host_files_path
   \<and> with_sandbox (host JNull tool_ok)
         \<lparr>files = [(''a'', JNum 1), (''../b'', JStr [])], extra_files = [], args = []\<rparr>
       = (Uncaught AttributeError,
          [Mkdtemp [''tmp'', ''tmpq1w2e3''],
           Mkdir [''tmp'', ''tmpq1w2e3'', ''files''],
           Rmtree [''tmp'', ''tmpq1w2e3'']])"
  by (simp add: host_eval)

section \<open>The decimal numeral of a length\<close>

lemma decimal_append:
  "decimal acc (xs @ ys) = (case decimal acc xs of None \<Rightarrow> None | Some a \<Rightarrow> decimal a ys)"
  by (induction xs arbitrary: acc) (auto split: option.splits)

lemma digit_index: "d < 10 \<Longrightarrow> index_of (''0123456789'' ! d) ''0123456789'' = Some d"
  by (rule index_of_nth) simp_all

text \<open>\<^verbatim>\<open>str\<close> writes a length so that it reads back as the same number.\<close>

lemma decimal_str_nat: "decimal 0 (str_nat n) = Some (int n)"
proof (induction n rule: str_nat.induct)
  case (1 n)
  show ?case
  proof (cases "n < 10")
    case True
    then show ?thesis
      by (subst str_nat.simps) (simp del: index_of.simps add: digit_index)
  next
    case False
    have "decimal 0 (str_nat n)
            = decimal (int (n div 10)) [''0123456789'' ! (n mod 10)]"
      using False "1.IH" by (subst str_nat.simps) (simp add: decimal_append)
    also have "\<dots> = Some (10 * int (n div 10) + int (n mod 10))"
      by (simp del: index_of.simps add: digit_index)
    also have "10 * int (n div 10) + int (n mod 10) = int n"
      by (simp add: zdiv_int zmod_int)
    finally show ?thesis .
  qed
qed

section \<open>Claims about the invocation of the tool\<close>




text \<open>
  C5. Whenever the tool is run, its argument list is \<^verbatim>\<open>pandoc\<close>, the elements of
  \<^verbatim>\<open>args\<close> (which are all strings), the keys of \<^verbatim>\<open>files\<close> in their order, \<^verbatim>\<open>-o\<close> and
  \<^verbatim>\<open>-\<close>; its working directory is the \<^verbatim>\<open>files\<close> directory; it is run once, after the
  materialization; and the handler answers from the standard output and the standard
  error that \<^verbatim>\<open>communicate()\<close> returned.
\<close>

theorem tool_invocation:
  assumes "Spawn argv cwd \<in> set (snd (sandbox_body e fp j))"
  shows "\<exists>ss rc out err r.
           args j = map JStr ss
         \<and> argv = ''pandoc'' # ss @ dict_keys (files j) @ [''-o'', ''-'']
         \<and> cwd = fp
         \<and> snd (sandbox_body e fp j)
             = snd (materialize_files e fp (dict_merge (files j) (extra_files j)))
               @ [Spawn argv cwd]
         \<and> popen e argv cwd
               (written (snd (materialize_files e fp (dict_merge (files j) (extra_files j)))))
             = Inr (rc, out, err)
         \<and> fst (sandbox_body e fp j) = Response r
         \<and> (resp_body r = out \<or> resp_body r = err)"
proof -
  let ?m = "materialize_files e fp (dict_merge (files j) (extra_files j))"
  note sp = sandbox_body_spawn [OF assms]
  from sp obtain ss rc out err r where ss: "strs_of (args j) = Some ss"
    and argv: "Spawn argv cwd = Spawn (''pandoc'' # ss @ dict_keys (files j) @ [''-o'', ''-'']) fp"
    and po: "popen e (''pandoc'' # ss @ dict_keys (files j) @ [''-o'', ''-'']) fp (written (snd ?m))
               = Inr (rc, out, err)"
    and r: "fst (run_pandoc e fp (written (snd ?m)) (files j) (args j)) = Response r"
    and body: "resp_body r = out \<or> resp_body r = err"
    using run_pandoc_spawn [of "Spawn argv cwd" e fp "written (snd ?m)" "files j" "args j"]
    by blast
  from sp have "fst (sandbox_body e fp j) = fst (run_pandoc e fp (written (snd ?m)) (files j) (args j))"
    by (cases ?m; cases "run_pandoc e fp (written (snd ?m)) (files j) (args j)")
      (simp add: sandbox_body_def)
  with r have "fst (sandbox_body e fp j) = Response r"
    by simp
  with sp ss argv po body show ?thesis
    using strs_of_Some [OF ss] by auto
qed

theorem tool_invocation_witness:
  "Spawn [''pandoc'', ''-t'', ''plain'', ''a.md'', ''-o'', ''-''] host_files_path
     \<in> set (snd (sandbox_body (host JNull tool_ok) host_files_path
         \<lparr>files = [(''a.md'', JStr ''IyBUaXRsZQ=='')],
          extra_files = [(''style.css'', JStr ''data:,hi'')],
          args = [JStr ''-t'', JStr ''plain'']\<rparr>))
   \<and> (\<exists>ss. [JStr ''-t'', JStr ''plain''] = map JStr ss
          \<and> [''pandoc'', ''-t'', ''plain'', ''a.md'', ''-o'', ''-'']
              = ''pandoc'' # ss @ dict_keys [(''a.md'', JStr ''IyBUaXRsZQ=='')] @ [''-o'', ''-''])"
proof -
  let ?j = "\<lparr>files = [(''a.md'', JStr ''IyBUaXRsZQ=='')],
             extra_files = [(''style.css'', JStr ''data:,hi'')],
             args = [JStr ''-t'', JStr ''plain'']\<rparr>"
  have s: "Spawn [''pandoc'', ''-t'', ''plain'', ''a.md'', ''-o'', ''-''] host_files_path
             \<in> set (snd (sandbox_body (host JNull tool_ok) host_files_path ?j))"
    by (simp add: host_eval str_nat.simps)
  show ?thesis
    using tool_invocation [OF s] s by auto
qed

text \<open>
  C2. When the materialization has run to its end and the tool has run, the response is
  200 with the two headers and the standard output as body if the return code is zero,
  and 500 with no header and the standard error as body otherwise. The value of
  \<^verbatim>\<open>Content-Length\<close> is the decimal numeral of the length of the standard output.
\<close>

theorem tool_result_response:
  assumes "fst (materialize_files e fp (dict_merge (files j) (extra_files j))) = Inr ()"
    and "strs_of (args j) = Some ss"
    and "popen e (''pandoc'' # ss @ dict_keys (files j) @ [''-o'', ''-'']) fp
           (written (snd (materialize_files e fp (dict_merge (files j) (extra_files j)))))
         = Inr (rc, out, err)"
  shows "fst (sandbox_body e fp j) =
           (if rc = 0
            then Response \<lparr>resp_status = 200,
                           resp_headers = [(''Content-Type'', ''application/octet-stream''),
                                           (''Content-Length'', str_nat (length out))],
                           resp_body = out\<rparr>
            else Response \<lparr>resp_status = 500, resp_headers = [], resp_body = err\<rparr>)"
  using assms
  by (cases "materialize_files e fp (dict_merge (files j) (extra_files j))")
    (simp add: sandbox_body_def run_pandoc_def)

theorem tool_result_response_witness:
  "fst (sandbox_body (host JNull tool_ok) host_files_path
         \<lparr>files = [(''a.md'', JStr ''IyBUaXRsZQ=='')], extra_files = [], args = [JStr ''-s'']\<rparr>)
     = Response \<lparr>resp_status = 200,
                  resp_headers = [(''Content-Type'', ''application/octet-stream''),
                                  (''Content-Length'', ''2'')],
                  resp_body = [0x6f, 0x6b]\<rparr>
   \<and> fst (sandbox_body (host JNull tool_fails) host_files_path
         \<lparr>files = [(''a.md'', JStr ''IyBUaXRsZQ=='')], extra_files = [], args = [JStr ''-s'']\<rparr>)
     = Response \<lparr>resp_status = 500, resp_headers = [], resp_body = [0x6e, 0x6f]\<rparr>"
proof -
  let ?j = "\<lparr>files = [(''a.md'', JStr ''IyBUaXRsZQ=='')], extra_files = [],
             args = [JStr ''-s'']\<rparr>"
  let ?disk = "written (snd (materialize_files (host JNull tool_ok) host_files_path
                 (dict_merge (files ?j) (extra_files ?j))))"
  let ?disk' = "written (snd (materialize_files (host JNull tool_fails) host_files_path
                 (dict_merge (files ?j) (extra_files ?j))))"
  have m: "fst (materialize_files (host JNull tool_ok) host_files_path
                 (dict_merge (files ?j) (extra_files ?j))) = Inr ()"
    by (simp add: host_eval)
  have m': "fst (materialize_files (host JNull tool_fails) host_files_path
                 (dict_merge (files ?j) (extra_files ?j))) = Inr ()"
    by (simp add: host_eval)
  have a: "strs_of (args ?j) = Some [''-s'']"
    by simp
  have p: "popen (host JNull tool_ok) (''pandoc'' # [''-s''] @ dict_keys (files ?j) @ [''-o'', ''-''])
             host_files_path ?disk = Inr (0, [0x6f, 0x6b], [])"
    by (simp add: host_def tool_ok_def)
  have p': "popen (host JNull tool_fails) (''pandoc'' # [''-s''] @ dict_keys (files ?j) @ [''-o'', ''-''])
             host_files_path ?disk' = Inr (64, [], [0x6e, 0x6f])"
    by (simp add: host_def tool_fails_def)
  show ?thesis
    using tool_result_response [OF m a p] tool_result_response [OF m' a p']
    by (simp add: str_nat.simps)
qed


section \<open>Claims about the request\<close>

text \<open>
  C3. On the endpoint \<^verbatim>\<open>/\<close> and with a token configured, a request without
  \<^verbatim>\<open>Authorization\<close> header is answered with 401, one whose header differs from
  \<^verbatim>\<open>Bearer\<close>, a space and the token with 403, and one with exactly this value is handled
  as the rest of the handler handles it. With no token configured every request is
  handled by the rest of the handler.
\<close>

theorem auth_gate_outcomes:
  assumes "req_path req = ''/''"
  shows "(req_headers req ''Authorization'' = None \<longrightarrow>
            do_POST (Some t) e req = (Response (empty_response 401), []))
       \<and> (\<forall>v. req_headers req ''Authorization'' = Some v \<and> v \<noteq> ''Bearer '' @ t \<longrightarrow>
            do_POST (Some t) e req = (Response (empty_response 403), []))
       \<and> (req_headers req ''Authorization'' = Some (''Bearer '' @ t) \<longrightarrow>
            do_POST (Some t) e req = after_auth e req)
       \<and> do_POST None e req = after_auth e req"
  using assms by (simp add: do_POST_def auth_gate_def)

theorem auth_gate_outcomes_witness:
  "do_POST (Some ''s3cret'') (host JNull tool_ok)
     \<lparr>req_path = ''/'', req_headers = Map.empty, req_rfile = []\<rparr>
     = (Response (empty_response 401), [])
   \<and> do_POST (Some ''s3cret'') (host JNull tool_ok)
       \<lparr>req_path = ''/'', req_headers = [''Authorization'' \<mapsto> ''Bearer s3cre''], req_rfile = []\<rparr>
     = (Response (empty_response 403), [])
   \<and> do_POST (Some ''s3cret'') (host JNull tool_ok)
       \<lparr>req_path = ''/'', req_headers = [''Authorization'' \<mapsto> ''Bearer s3cret''], req_rfile = []\<rparr>
     = after_auth (host JNull tool_ok)
         \<lparr>req_path = ''/'', req_headers = [''Authorization'' \<mapsto> ''Bearer s3cret''], req_rfile = []\<rparr>
   \<and> do_POST None (host JNull tool_ok)
       \<lparr>req_path = ''/'', req_headers = Map.empty, req_rfile = []\<rparr>
     = after_auth (host JNull tool_ok)
         \<lparr>req_path = ''/'', req_headers = Map.empty, req_rfile = []\<rparr>"
proof -
  let ?none = "\<lparr>req_path = ''/'', req_headers = Map.empty, req_rfile = []\<rparr>"
  let ?wrong = "\<lparr>req_path = ''/'', req_headers = [''Authorization'' \<mapsto> ''Bearer s3cre''],
                 req_rfile = []\<rparr>"
  let ?right = "\<lparr>req_path = ''/'', req_headers = [''Authorization'' \<mapsto> ''Bearer s3cret''],
                 req_rfile = []\<rparr>"
  have p1: "req_path ?none = ''/''" by simp
  have p2: "req_path ?wrong = ''/''" by simp
  have p3: "req_path ?right = ''/''" by simp
  show ?thesis
    using auth_gate_outcomes [OF p1, of "''s3cret''" "host JNull tool_ok"]
      auth_gate_outcomes [OF p2, of "''s3cret''" "host JNull tool_ok"]
      auth_gate_outcomes [OF p3, of "''s3cret''" "host JNull tool_ok"]
    by simp
qed

section \<open>Claims about the validation\<close>

lemma map_of_filter_other:
  "map_of (filter (\<lambda>(k', _). k' \<noteq> k) d) k'' = (if k'' = k then None else map_of d k'')"
  by (induction d) auto

lemma dict_keys_map_of: "k \<in> set (dict_keys d) \<longleftrightarrow> map_of d k \<noteq> None"
  by (simp add: dict_keys_def map_of_eq_None_iff)

lemma dict_pop_value: "fst (dict_pop k dflt d) = (case map_of d k of None \<Rightarrow> dflt | Some v \<Rightarrow> v)"
  by (simp add: dict_pop_def split: option.splits)

lemma dict_pop_rest:
  "k'' \<noteq> k \<Longrightarrow> map_of (snd (dict_pop k dflt d)) k'' = map_of d k''"
  by (simp add: dict_pop_def map_of_filter_other split: option.splits)

text \<open>A payload that is no object is not answered with 400 where the membership test raises.\<close>

lemma validate_non_object:
  "validate JNull = Inl (Uncaught TypeError)"
  "validate (JBool b) = Inl (Uncaught TypeError)"
  "validate (JNum n) = Inl (Uncaught TypeError)"
  by (simp_all add: validate_def)

text \<open>
  C4, as the handler has it. A payload that is an object is answered with 400 exactly
  when \<^verbatim>\<open>files\<close> is absent or no object, or \<^verbatim>\<open>extra_files\<close> is present and no object, or
  \<^verbatim>\<open>args\<close> is absent or no array; the elements of \<^verbatim>\<open>args\<close> are not looked at. Otherwise
  the job goes on with these three values, \<^verbatim>\<open>extra_files\<close> being empty when absent.
\<close>

theorem validate_object:
  "(validate (JObj d) = Inl (Response (empty_response 400)) \<longleftrightarrow>
      (\<forall>f. map_of d ''files'' \<noteq> Some (JObj f))
    \<or> (\<exists>x. map_of d ''extra_files'' = Some x \<and> \<not> is_dict x)
    \<or> (\<forall>a. map_of d ''args'' \<noteq> Some (JArr a)))
   \<and> (\<forall>f a. map_of d ''files'' = Some (JObj f) \<and> map_of d ''args'' = Some (JArr a)
          \<and> (map_of d ''extra_files'' = None \<or> (\<exists>x. map_of d ''extra_files'' = Some (JObj x)))
        \<longrightarrow> validate (JObj d)
              = Inr \<lparr>files = f,
                     extra_files = (case map_of d ''extra_files'' of
                                      Some (JObj x) \<Rightarrow> x | _ \<Rightarrow> []),
                     args = a\<rparr>)"
proof -
  let ?p1 = "snd (dict_pop ''files'' JNull d)"
  let ?p2 = "snd (dict_pop ''extra_files'' (JObj []) ?p1)"
  have e1: "map_of ?p1 ''extra_files'' = map_of d ''extra_files''"
    by (simp add: dict_pop_rest)
  have a2: "map_of ?p2 ''args'' = map_of d ''args''"
    by (simp add: dict_pop_rest)
  have v: "validate (JObj d) =
    (case map_of d ''files'' of
       None \<Rightarrow> Inl (Response (empty_response 400))
     | Some fv \<Rightarrow>
         if \<not> is_dict fv then Inl (Response (empty_response 400))
         else if \<not> is_dict (case map_of d ''extra_files'' of None \<Rightarrow> JObj [] | Some x \<Rightarrow> x)
         then Inl (Response (empty_response 400))
         else
           (case map_of d ''args'' of
              None \<Rightarrow> Inl (Response (empty_response 400))
            | Some av \<Rightarrow>
                if \<not> is_list av then Inl (Response (empty_response 400))
                else Inr \<lparr>files = the_dict fv,
                          extra_files = the_dict (case map_of d ''extra_files'' of
                                                    None \<Rightarrow> JObj [] | Some x \<Rightarrow> x),
                          args = the_list av\<rparr>))"
    by (simp add: validate_def dict_keys_map_of dict_pop_value case_prod_beta e1 a2
        split: option.splits)
  show ?thesis
    unfolding v
    by (auto simp: is_dict_def is_list_def the_dict_def the_list_def
        split: option.splits json.splits)
qed

theorem validate_object_witness:
  "validate (JObj [(''files'', JObj [(''a.md'', JStr ''IyBUaXRsZQ=='')]),
                   (''args'', JArr [JStr ''-t'', JStr ''plain''])])
     = Inr \<lparr>files = [(''a.md'', JStr ''IyBUaXRsZQ=='')], extra_files = [],
            args = [JStr ''-t'', JStr ''plain'']\<rparr>
   \<and> validate (JObj [(''files'', JObj []), (''extra_files'', JArr []), (''args'', JArr [])])
     = Inl (Response (empty_response 400))"
proof -
  let ?d = "[(''files'', JObj [(''a.md'', JStr ''IyBUaXRsZQ=='')]),
             (''args'', JArr [JStr ''-t'', JStr ''plain''])]"
  let ?d' = "[(''files'', JObj []), (''extra_files'', JArr []), (''args'', JArr [])]"
  have bad: "\<exists>x. map_of ?d' ''extra_files'' = Some x \<and> \<not> is_dict x"
    by (simp add: is_dict_def)
  show ?thesis
    using validate_object [of ?d] validate_object [of ?d'] bad
    by simp
qed

text \<open>
  The claim C4 as stated fails on \<^verbatim>\<open>{"files": {}, "args": [1]}\<close>: \<^verbatim>\<open>args\<close> is no
  sequence of strings, and the validation does not answer 400 but goes on with the job.
\<close>

theorem validate_args_counterexample:
  "validate (JObj [(''files'', JObj []), (''args'', JArr [JNum 1])])
     = Inr \<lparr>files = [], extra_files = [], args = [JNum 1]\<rparr>"
  by (simp add: validate_def dict_pop_def dict_keys_def is_dict_def is_list_def
      the_dict_def the_list_def)

section \<open>Claims about the sandbox\<close>

lemma do_POST_accepted:
  "accepted_job token e req = Some j \<Longrightarrow> do_POST token e req = with_sandbox e j"
  by (auto simp: do_POST_def after_auth_def accepted_job_def split: sum.splits if_splits)

lemma do_POST_rejected:
  "accepted_job token e req = None \<Longrightarrow> snd (do_POST token e req) = []"
  by (auto simp: do_POST_def after_auth_def accepted_job_def split: sum.splits if_splits)

lemma joinpath_files: "joinpath tmp_path ''files'' = tmp_path @ [''files'']"
  by (simp add: joinpath_def parts_def startswith_def)

lemma with_sandbox_events:
  "\<exists>mid. snd (with_sandbox e j) = Mkdtemp (tmpdir e) # mid @ [Rmtree (tmpdir e)]
       \<and> (\<forall>d. Mkdtemp d \<notin> set mid \<and> Rmtree d \<notin> set mid)
       \<and> (\<forall>tmp_path p b. resolve e (tmpdir e) = Inr tmp_path \<longrightarrow>
             (Mkdir p \<in> set mid \<longrightarrow> p = tmp_path @ [''files''])
           \<and> (Open p \<in> set mid \<longrightarrow> is_relative_to p (tmp_path @ [''files'']))
           \<and> (Write p b \<in> set mid \<longrightarrow> is_relative_to p (tmp_path @ [''files''])))"
proof (cases "resolve e (tmpdir e)")
  case (Inl ex)
  then have "snd (with_sandbox e j) = Mkdtemp (tmpdir e) # [] @ [Rmtree (tmpdir e)]"
    by (simp add: with_sandbox_def)
  with Inl show ?thesis by fastforce
next
  case (Inr tmp_path)
  let ?fp = "tmp_path @ [''files'']"
  let ?mid = "Mkdir ?fp # snd (sandbox_body e ?fp j)"
  have s: "snd (with_sandbox e j) = Mkdtemp (tmpdir e) # ?mid @ [Rmtree (tmpdir e)]"
    using Inr by (simp add: with_sandbox_def joinpath_files Let_def split: prod.splits)
  have ev: "(\<exists>p. ev = Open p \<and> is_relative_to p ?fp)
       \<or> (\<exists>p b. ev = Write p b \<and> is_relative_to p ?fp)
       \<or> (\<exists>u. ev = Urlopen u)
       \<or> (\<exists>argv. ev = Spawn argv ?fp)" if "ev \<in> set (snd (sandbox_body e ?fp j))" for ev
    using sandbox_body_events [OF that] .
  have a: "\<forall>d. Mkdtemp d \<notin> set ?mid \<and> Rmtree d \<notin> set ?mid"
    using ev by fastforce
  have b: "\<forall>p. Mkdir p \<in> set ?mid \<longrightarrow> p = ?fp"
    using ev by fastforce
  have c: "\<forall>p. Open p \<in> set ?mid \<longrightarrow> is_relative_to p ?fp"
    using ev by fastforce
  have d: "\<forall>p b. Write p b \<in> set ?mid \<longrightarrow> is_relative_to p ?fp"
    using ev by fastforce
  from s a b c d Inr show ?thesis by auto
qed

text \<open>
  C8, as the handler has it. A request that passes the checks of the path, of the
  authentication, of the content type, of the body and of the payload creates one
  sandbox directory as its first effect and removes it as its last effect, however the
  block in between is left; in between no other directory is created or removed, the
  only directory made is \<^verbatim>\<open>files\<close> inside the sandbox, and every file opened or written
  lies under it. A request that fails one of these checks has no effect on the file
  system at all.
\<close>

theorem sandbox_lifetime:
  "(accepted_job token e req = None \<longrightarrow> snd (do_POST token e req) = [])
   \<and> (\<forall>j. accepted_job token e req = Some j \<longrightarrow>
        (\<exists>mid. snd (do_POST token e req) = Mkdtemp (tmpdir e) # mid @ [Rmtree (tmpdir e)]
           \<and> (\<forall>d. Mkdtemp d \<notin> set mid \<and> Rmtree d \<notin> set mid)
           \<and> (\<forall>tmp_path p b. resolve e (tmpdir e) = Inr tmp_path \<longrightarrow>
                 (Mkdir p \<in> set mid \<longrightarrow> p = tmp_path @ [''files''])
               \<and> (Open p \<in> set mid \<longrightarrow> is_relative_to p (tmp_path @ [''files'']))
               \<and> (Write p b \<in> set mid \<longrightarrow> is_relative_to p (tmp_path @ [''files''])))))"
proof -
  have a: "accepted_job token e req = None \<longrightarrow> snd (do_POST token e req) = []"
    by (simp add: do_POST_rejected)
  have b: "\<exists>mid. snd (do_POST token e req) = Mkdtemp (tmpdir e) # mid @ [Rmtree (tmpdir e)]
           \<and> (\<forall>d. Mkdtemp d \<notin> set mid \<and> Rmtree d \<notin> set mid)
           \<and> (\<forall>tmp_path p b. resolve e (tmpdir e) = Inr tmp_path \<longrightarrow>
                 (Mkdir p \<in> set mid \<longrightarrow> p = tmp_path @ [''files''])
               \<and> (Open p \<in> set mid \<longrightarrow> is_relative_to p (tmp_path @ [''files'']))
               \<and> (Write p b \<in> set mid \<longrightarrow> is_relative_to p (tmp_path @ [''files''])))"
    if "accepted_job token e req = Some j" for j
  proof -
    from that have "do_POST token e req = with_sandbox e j"
      by (rule do_POST_accepted)
    then show ?thesis
      using with_sandbox_events [of e j] by simp
  qed
  from a b show ?thesis by blast
qed

theorem sandbox_lifetime_witness:
  "accepted_job None
     (host (JObj [(''files'', JObj [(''a.md'', JStr ''IyBUaXRsZQ=='')]), (''args'', JArr [])])
        tool_fails)
     \<lparr>req_path = ''/'',
      req_headers = [''Content-Type'' \<mapsto> ''application/json'', ''Content-Length'' \<mapsto> ''44''],
      req_rfile = []\<rparr>
     = Some \<lparr>files = [(''a.md'', JStr ''IyBUaXRsZQ=='')], extra_files = [], args = []\<rparr>
   \<and> do_POST None
       (host (JObj [(''files'', JObj [(''a.md'', JStr ''IyBUaXRsZQ=='')]), (''args'', JArr [])])
          tool_fails)
       \<lparr>req_path = ''/'',
        req_headers = [''Content-Type'' \<mapsto> ''application/json'', ''Content-Length'' \<mapsto> ''44''],
        req_rfile = []\<rparr>
     = (Response \<lparr>resp_status = 500, resp_headers = [], resp_body = [0x6e, 0x6f]\<rparr>,
        [Mkdtemp [''tmp'', ''tmpq1w2e3''],
         Mkdir [''tmp'', ''tmpq1w2e3'', ''files''],
         Open [''tmp'', ''tmpq1w2e3'', ''files'', ''a.md''],
         Write [''tmp'', ''tmpq1w2e3'', ''files'', ''a.md''] [0x23, 0x20, 0x54, 0x69, 0x74, 0x6c, 0x65],
         Spawn [''pandoc'', ''a.md'', ''-o'', ''-''] [''tmp'', ''tmpq1w2e3'', ''files''],
         Rmtree [''tmp'', ''tmpq1w2e3'']])
   \<and> accepted_job (Some ''s3cret'') (host JNull tool_ok)
       \<lparr>req_path = ''/'', req_headers = Map.empty, req_rfile = []\<rparr> = None
   \<and> snd (do_POST (Some ''s3cret'') (host JNull tool_ok)
       \<lparr>req_path = ''/'', req_headers = Map.empty, req_rfile = []\<rparr>) = []"
proof -
  let ?e = "host (JObj [(''files'', JObj [(''a.md'', JStr ''IyBUaXRsZQ=='')]),
                        (''args'', JArr [])]) tool_fails"
  let ?req = "\<lparr>req_path = ''/'',
      req_headers = [''Content-Type'' \<mapsto> ''application/json'', ''Content-Length'' \<mapsto> ''44''],
      req_rfile = []\<rparr>"
  let ?req' = "\<lparr>req_path = ''/'', req_headers = Map.empty, req_rfile = []\<rparr>"
  have acc: "accepted_job None ?e ?req
               = Some \<lparr>files = [(''a.md'', JStr ''IyBUaXRsZQ=='')], extra_files = [], args = []\<rparr>"
    by (simp add: accepted_job_def auth_gate_def parse_body_def read_body_def host_def
        validate_def dict_pop_def dict_keys_def is_dict_def is_list_def the_dict_def the_list_def)
  have run: "do_POST None ?e ?req
     = (Response \<lparr>resp_status = 500, resp_headers = [], resp_body = [0x6e, 0x6f]\<rparr>,
        [Mkdtemp [''tmp'', ''tmpq1w2e3''],
         Mkdir [''tmp'', ''tmpq1w2e3'', ''files''],
         Open [''tmp'', ''tmpq1w2e3'', ''files'', ''a.md''],
         Write [''tmp'', ''tmpq1w2e3'', ''files'', ''a.md''] [0x23, 0x20, 0x54, 0x69, 0x74, 0x6c, 0x65],
         Spawn [''pandoc'', ''a.md'', ''-o'', ''-''] [''tmp'', ''tmpq1w2e3'', ''files''],
         Rmtree [''tmp'', ''tmpq1w2e3'']])"
    unfolding do_POST_accepted [OF acc]
    by (simp add: host_eval Let_def)
  have rej: "accepted_job (Some ''s3cret'') (host JNull tool_ok) ?req' = None"
    by (simp add: accepted_job_def auth_gate_def)
  show ?thesis
    using sandbox_lifetime [of None ?e ?req]
      sandbox_lifetime [of "Some ''s3cret''" "host JNull tool_ok" ?req'] acc run rej
    by simp
qed

text \<open>
  The claim C8 as stated fails on a request that is rejected before the sandbox block:
  a request with \<^verbatim>\<open>Content-Type: text/plain\<close> is answered with 400 and creates no
  sandbox directory.
\<close>

theorem sandbox_lifetime_counterexample:
  "do_POST None (host JNull tool_ok)
     \<lparr>req_path = ''/'', req_headers = [''Content-Type'' \<mapsto> ''text/plain''], req_rfile = []\<rparr>
   = (Response (empty_response 400), [])"
  by (simp add: do_POST_def auth_gate_def after_auth_def parse_body_def)

end
